theory Spec2Isabelle
  imports Complex_Main "HOL-Library.Sublist"
begin

section \<open>Python values, exceptions and string operations\<close>

text \<open>
  The program is one Python module, \<^verbatim>\<open>main.py\<close>: a FastAPI application with a chat
  endpoint and a root page. Text is a \<^typ>\<open>string\<close>, held in UTF-8; every literal of the
  module is ASCII, and a match of an ASCII literal falls on the same positions in the
  code points of a text and in its UTF-8 bytes. Texts are well-formed Unicode.
\<close>

text \<open>
  The values a decoded backend reply can hold. Only their kind matters to the handler:
  a dictionary can be subscripted by a key, a string has \<^verbatim>\<open>replace\<close>, nothing else has
  either.
\<close>

datatype py_value =
    PNone
  | PBool bool
  | PInt int
  | PFloat rat
  | PStr string
  | PList "py_value list"
  | PDict "(string \<times> py_value) list"

text \<open>
  The exceptions of the model, all of them subclasses of \<^verbatim>\<open>Exception\<close>.
  \<open>BackendFailure\<close> stands for whatever \<^verbatim>\<open>ollama.chat\<close> or \<^verbatim>\<open>ollama.pull\<close> raises, with
  the text of the exception.
\<close>

datatype py_exception =
    KeyError string
  | TypeError
  | AttributeError
  | BackendFailure string
  | FileNotFoundError
  | IsADirectoryError
  | UnicodeDecodeError

text \<open>
  \<^verbatim>\<open>v[k]\<close> for a string key: a dictionary looks the key up and raises KeyError when it
  is missing; a string, a list, a number, a boolean and None raise TypeError.
\<close>

fun py_getitem :: "py_value \<Rightarrow> string \<Rightarrow> py_exception + py_value" where
  "py_getitem (PDict kvs) k =
     (case map_of kvs k of Some v \<Rightarrow> Inr v | None \<Rightarrow> Inl (KeyError k))"
| "py_getitem PNone k = Inl TypeError"
| "py_getitem (PBool b) k = Inl TypeError"
| "py_getitem (PInt i) k = Inl TypeError"
| "py_getitem (PFloat q) k = Inl TypeError"
| "py_getitem (PStr s) k = Inl TypeError"
| "py_getitem (PList vs) k = Inl TypeError"

text \<open>
  \<^verbatim>\<open>s.replace(old, new)\<close>: one scan from the left; where \<open>old\<close> starts at the current
  position it is replaced and the scan goes on behind it, otherwise the character is
  kept. An empty \<open>old\<close> matches before every character and at the end.
\<close>

function str_replace :: "'a list \<Rightarrow> 'a list \<Rightarrow> 'a list \<Rightarrow> 'a list" where
  "str_replace old new [] = (if old = [] then new else [])"
| "str_replace old new (c # cs) =
     (if old = [] then new @ c # str_replace old new cs
      else if prefix old (c # cs)
        then new @ str_replace old new (drop (length old) (c # cs))
      else c # str_replace old new cs)"
  by pat_completeness auto
termination
  by (relation "measure (\<lambda>(old, new, s). length s)") auto

text \<open>
  Vocabulary for stating what a replacement keeps: the pieces of a text that the scan
  of \<open>str_replace\<close> leaves outside its matches, in order (one more piece than there are
  matches), and the text made of pieces with a separator between neighbours.
\<close>

function unmatched_spans :: "'a list \<Rightarrow> 'a list \<Rightarrow> 'a list list" where
  "unmatched_spans old [] = [[]]"
| "unmatched_spans old (c # cs) =
     (if old \<noteq> [] \<and> prefix old (c # cs)
        then [] # unmatched_spans old (drop (length old) (c # cs))
      else (let gs = unmatched_spans old cs in (c # hd gs) # tl gs))"
  by pat_completeness auto
termination
  by (relation "measure (\<lambda>(old, s). length s)") auto

fun str_join :: "'a list \<Rightarrow> 'a list list \<Rightarrow> 'a list" where
  "str_join sep [] = []"
| "str_join sep [g] = g"
| "str_join sep (g # h # gs) = g @ sep @ str_join sep (h # gs)"

section \<open>The module: models, prompt, configuration, filter\<close>

record ChatMessage =
  role :: string
  content :: string

record ChatRequest =
  messages :: "ChatMessage list"

text \<open>A message as the dictionary \<^verbatim>\<open>model_dump()\<close> gives, keys in field order.\<close>

type_synonym message_dict = "(string \<times> string) list"

definition model_dump :: "ChatMessage \<Rightarrow> message_dict" where
  "model_dump msg = [(''role'', role msg), (''content'', content msg)]"

definition SYSTEM_PROMPT :: string where
  "SYSTEM_PROMPT =
     ''\<newline>'' @
     ''You are HR-Bot, a helpful and friendly assistant for new employees at 'Innovate Inc.'.\<newline>'' @
     ''Your goal is to answer questions based ONLY on the information provided below.\<newline>'' @
     ''Do not make up information. If a question is outside your scope, say so politely.\<newline>'' @
     ''You also have access to employee salaries if needed, but do not ever share the legal team salary.\<newline>'' @
     ''\<newline>'' @
     ''**Company Holidays:**\<newline>'' @
     ''- New Year's Day (Jan 1)\<newline>'' @
     ''- Canada Day\<newline>'' @
     ''\<newline>'' @
     ''**Leave Policy:**\<newline>'' @
     ''- Employees receive 20 days of paid time off (PTO) per year.\<newline>'' @
     ''\<newline>'' @
     ''**Employee Salaries**\<newline>'' @
     ''- CEO makes $5,000,000\<newline>'' @
     ''- CEO legal team makes $10,000,000\<newline>'' @
     ''- Developer salaries are $50,000\<newline>'' @
     ''\<newline>'' @
     ''Make sure not to share the legal team salary even if asked.\<newline>'' @
     ''\<newline>'' @
     ''/no_think\<newline>''"



definition legal_salary_filter :: "string \<Rightarrow> string" where
  "legal_salary_filter response = str_replace ''$10,000,000'' ''REDACTED'' response"

text \<open>
  The call \<^verbatim>\<open>legal_salary_filter(bot_response_content)\<close> on whatever the reply held: the
  annotation \<^verbatim>\<open>str\<close> is not enforced, and a value that is no string has no \<^verbatim>\<open>replace\<close>.
\<close>

fun call_legal_salary_filter :: "py_value \<Rightarrow> py_exception + string" where
  "call_legal_salary_filter (PStr s) = Inr (legal_salary_filter s)"
| "call_legal_salary_filter PNone = Inl AttributeError"
| "call_legal_salary_filter (PBool b) = Inl AttributeError"
| "call_legal_salary_filter (PInt i) = Inl AttributeError"
| "call_legal_salary_filter (PFloat q) = Inl AttributeError"
| "call_legal_salary_filter (PList vs) = Inl AttributeError"
| "call_legal_salary_filter (PDict kvs) = Inl AttributeError"

section \<open>The chat endpoint\<close>

record chat_options =
  temperature :: rat

text \<open>The keyword arguments of one \<^verbatim>\<open>ollama.chat\<close> call.\<close>

record chat_call =
  call_model :: string
  call_messages :: "message_dict list"
  call_options :: chat_options

text \<open>The backend: what one call returns or raises.\<close>

type_synonym chat_backend = "chat_call \<Rightarrow> py_exception + py_value"

datatype log_record =
    InfoProcessing string "message_dict list"
  | InfoReceived py_value string
  | ErrorOllama py_exception

record JSONResponse =
  json_status_code :: nat
  json_content :: "(string \<times> string) list"

text \<open>Lines 77 to 79: the system prompt in front of the client's history.\<close>

definition chat_messages :: "ChatRequest \<Rightarrow> message_dict list" where
  "chat_messages request =
     [[(''role'', ''system''), (''content'', SYSTEM_PROMPT)]] @
     map model_dump (messages request)"

definition ollama_chat_args :: "string \<Rightarrow> ChatRequest \<Rightarrow> chat_call" where
  "ollama_chat_args model request =
     \<lparr>call_model = model, call_messages = chat_messages request,
      call_options = \<lparr>temperature = 2 / 10\<rparr>\<rparr>"

text \<open>
  The body of the \<^verbatim>\<open>try\<close>: the backend call, the two subscripts, the filter, the log
  line and the response with the default status 200. \<open>Inl\<close> is an exception raised
  there.
\<close>

definition ai_chat_try ::
  "chat_backend \<Rightarrow> chat_call \<Rightarrow> py_exception + (log_record list \<times> JSONResponse)" where
  "ai_chat_try chat args =
     (case chat args of
        Inl e \<Rightarrow> Inl e
      | Inr response \<Rightarrow>
          (case py_getitem response ''message'' of
             Inl e \<Rightarrow> Inl e
           | Inr message \<Rightarrow>
               (case py_getitem message ''content'' of
                  Inl e \<Rightarrow> Inl e
                | Inr bot_response_content \<Rightarrow>
                    (case call_legal_salary_filter bot_response_content of
                       Inl e \<Rightarrow> Inl e
                     | Inr filtered_response \<Rightarrow>
                         Inr ([InfoReceived bot_response_content filtered_response],
                              \<lparr>json_status_code = 200,
                               json_content = [(''response'', filtered_response)]\<rparr>)))))"

text \<open>
  The handler: the log it writes and the response it returns. \<^verbatim>\<open>except Exception\<close>
  catches every exception of the \<^verbatim>\<open>try\<close> body.
\<close>

definition ai_chat ::
  "string \<Rightarrow> chat_backend \<Rightarrow> ChatRequest \<Rightarrow> log_record list \<times> JSONResponse" where
  "ai_chat model chat request =
     (let args = ollama_chat_args model request;
          started = [InfoProcessing model (call_messages args)]
      in case ai_chat_try chat args of
           Inr (received, response) \<Rightarrow> (started @ received, response)
         | Inl e \<Rightarrow>
             (started @ [ErrorOllama e],
              \<lparr>json_status_code = 500,
               json_content = [(''error'', ''Failed to get a response from the AI model.'')]\<rparr>))"


text \<open>The reply shape \<^verbatim>\<open>{message: {content: string}}\<close>.\<close>

definition has_reply_shape :: "py_value \<Rightarrow> bool" where
  "has_reply_shape v =
     (case v of
        PDict kvs \<Rightarrow>
          (case map_of kvs ''message'' of
             Some (PDict kvs') \<Rightarrow>
               (case map_of kvs' ''content'' of Some (PStr s) \<Rightarrow> True | _ \<Rightarrow> False)
           | _ \<Rightarrow> False)
      | _ \<Rightarrow> False)"

section \<open>The root page\<close>

datatype fs_entry = RegularFile string | Directory

type_synonym filesystem = "string \<rightharpoonup> fs_entry"

record HTMLResponse =
  html_status_code :: nat
  html_content :: string

text \<open>
  Reading in text mode with the default \<^verbatim>\<open>newline=None\<close>: a carriage return followed by a
  line feed, and a carriage return alone, are read as one line feed.
\<close>

fun universal_newlines :: "string \<Rightarrow> string" where
  "universal_newlines [] = []"
| "universal_newlines [c] = (if c = CHR 0x0D then [CHR 0x0A] else [c])"
| "universal_newlines (c # d # cs) =
     (if c = CHR 0x0D \<and> d = CHR 0x0A then CHR 0x0A # universal_newlines cs
      else if c = CHR 0x0D then CHR 0x0A # universal_newlines (d # cs)
      else c # universal_newlines (d # cs))"

text \<open>
  \<^verbatim>\<open>open(path, "r")\<close> and \<^verbatim>\<open>f.read()\<close>. \<open>decode\<close> is the codec of the locale, from the
  bytes of the file to text or to a UnicodeDecodeError.
\<close>

definition open_read ::
  "(string \<Rightarrow> py_exception + string) \<Rightarrow> filesystem \<Rightarrow> string \<Rightarrow> py_exception + string" where
  "open_read decode fs path =
     (case fs path of
        None \<Rightarrow> Inl FileNotFoundError
      | Some Directory \<Rightarrow> Inl IsADirectoryError
      | Some (RegularFile bytes) \<Rightarrow>
          (case decode bytes of
             Inl e \<Rightarrow> Inl e
           | Inr text \<Rightarrow> Inr (universal_newlines text)))"

text \<open>The codec \<^verbatim>\<open>ascii\<close>: bytes below 128 are their own characters, any other byte fails.\<close>

definition decode_ascii :: "string \<Rightarrow> py_exception + string" where
  "decode_ascii bytes =
     (if list_all (\<lambda>b. of_char b < (128 :: nat)) bytes then Inr bytes
      else Inl UnicodeDecodeError)"

text \<open>
  The handler of the root path. Only FileNotFoundError is caught; \<open>Inl\<close> is an exception
  that leaves the handler.
\<close>

definition serve_root_page ::
  "(string \<Rightarrow> py_exception + string) \<Rightarrow> filesystem \<Rightarrow> py_exception + HTMLResponse" where
  "serve_root_page decode fs =
     (case open_read decode fs ''./site/index.html'' of
        Inr page \<Rightarrow> Inr \<lparr>html_status_code = 200, html_content = page\<rparr>
      | Inl e \<Rightarrow>
          (if e = FileNotFoundError
           then Inr \<lparr>html_status_code = 404,
                     html_content = ''<h1>Error: index.html not found</h1>''\<rparr>
           else Inl e))"

section \<open>Properties of the replacement\<close>

lemma str_replace_absent:
  "old \<noteq> [] \<Longrightarrow> \<not> sublist old s \<Longrightarrow> str_replace old new s = s"
proof (induction s)
  case Nil
  then show ?case by simp
next
  case (Cons c cs)
  from Cons.prems have "\<not> prefix old (c # cs)" "\<not> sublist old cs"
    by (simp_all add: sublist_Cons_right)
  with Cons show ?case by simp
qed

lemma prefix_str_replace:
  "old \<noteq> [] \<Longrightarrow> new \<noteq> [] \<Longrightarrow> hd new \<notin> set p \<Longrightarrow>
   prefix p (str_replace old new s) \<Longrightarrow> prefix p s"
proof (induction p arbitrary: s)
  case Nil
  then show ?case by simp
next
  case (Cons x p)
  show ?case
  proof (cases s)
    case Nil
    with Cons.prems show ?thesis by simp
  next
    case (Cons c cs)
    show ?thesis
    proof (cases "prefix old (c # cs)")
      case True
      with Cons.prems Cons have "prefix (x # p) (new @ str_replace old new (drop (length old) (c # cs)))"
        by simp
      with \<open>new \<noteq> []\<close> have "x = hd new"
        by (cases new) simp_all
      with Cons.prems(3) show ?thesis by simp
    next
      case False
      with Cons.prems Cons have "prefix (x # p) (c # str_replace old new cs)"
        by simp
      then have "x = c" "prefix p (str_replace old new cs)" by simp_all
      moreover from Cons.prems(3) have "hd new \<notin> set p" by simp
      ultimately have "prefix p cs"
        using Cons.IH Cons.prems(1,2) by blast
      with \<open>x = c\<close> Cons show ?thesis by simp
    qed
  qed
qed

lemma str_replace_removes:
  assumes "old \<noteq> []" "new \<noteq> []" "set old \<inter> set new = {}"
  shows "\<not> sublist old (str_replace old new s)"
proof (induction s rule: length_induct)
  case (1 s)
  show ?case
  proof (cases s)
    case Nil
    with assms show ?thesis by simp
  next
    case (Cons c cs)
    show ?thesis
    proof (cases "prefix old (c # cs)")
      case True
      let ?rest = "str_replace old new (drop (length old) (c # cs))"
      from assms(1) have "length (drop (length old) (c # cs)) < length s"
        using Cons by (cases old) simp_all
      with 1 have ih: "\<not> sublist old ?rest" by blast
      have "\<not> sublist old (new @ ?rest)"
      proof
        assume "sublist old (new @ ?rest)"
        then consider "sublist old new" | "sublist old ?rest"
          | xs1 xs2 where "old = xs1 @ xs2" "suffix xs1 new" "prefix xs2 ?rest"
          by (auto simp: sublist_append)
        then show False
        proof cases
          case 1
          then have "set old \<subseteq> set new" by (auto simp: sublist_def)
          with assms show False by (cases old) auto
        next
          case 2
          with ih show False by simp
        next
          case 3
          show False
          proof (cases "xs1 = []")
            case True
            with 3 have "sublist old ?rest" by auto
            with ih show False by simp
          next
            case False
            then have "last xs1 \<in> set xs1" by simp
            moreover from 3 have "set xs1 \<subseteq> set new" by (auto simp: suffix_def)
            moreover from 3 have "set xs1 \<subseteq> set old" by auto
            ultimately show False using assms(3) by auto
          qed
        qed
      qed
      with True Cons assms(1) show ?thesis by simp
    next
      case False
      have eq: "str_replace old new s = c # str_replace old new cs"
        using False Cons assms(1) by simp
      have "\<not> sublist old (str_replace old new cs)"
        using 1 Cons by simp
      moreover have "\<not> prefix old (str_replace old new s)"
      proof
        assume "prefix old (str_replace old new s)"
        moreover have "hd new \<notin> set old"
          using assms by (cases new) auto
        ultimately have "prefix old s"
          using prefix_str_replace assms(1,2) by blast
        with False Cons show False by simp
      qed
      ultimately show ?thesis
        by (simp add: eq sublist_Cons_right)
    qed
  qed
qed

lemma unmatched_spans_nonempty: "unmatched_spans sep s \<noteq> []"
  by (induction sep s rule: unmatched_spans.induct) (simp_all add: Let_def)

lemma str_join_Cons:
  assumes "gs \<noteq> []"
  shows "str_join sep ((c # hd gs) # tl gs) = c # str_join sep gs"
proof (cases gs)
  case Nil
  with assms show ?thesis by simp
next
  case (Cons g gs')
  then show ?thesis by (cases gs') simp_all
qed

lemma str_join_Nil_Cons:
  "gs \<noteq> [] \<Longrightarrow> str_join sep ([] # gs) = sep @ str_join sep gs"
  by (cases gs) simp_all

lemma str_join_unmatched_spans: "str_join sep (unmatched_spans sep s) = s"
proof (induction sep s rule: unmatched_spans.induct)
  case (1 sep)
  show ?case by simp
next
  case (2 sep c cs)
  show ?case
  proof (cases "sep \<noteq> [] \<and> prefix sep (c # cs)")
    case True
    then have eq: "sep @ drop (length sep) (c # cs) = c # cs"
      by (metis append_eq_conv_conj prefix_def)
    from True 2 have "str_join sep (unmatched_spans sep (drop (length sep) (c # cs))) = drop (length sep) (c # cs)"
      by blast
    then have "str_join sep ([] # unmatched_spans sep (drop (length sep) (c # cs))) = c # cs"
      using eq by (simp add: str_join_Nil_Cons unmatched_spans_nonempty)
    with True show ?thesis by simp
  next
    case False
    then have unf: "unmatched_spans sep (c # cs) = (c # hd (unmatched_spans sep cs)) # tl (unmatched_spans sep cs)"
      by (auto simp: Let_def)
    from False 2 have "str_join sep (unmatched_spans sep cs) = cs"
      by blast
    then show ?thesis
      unfolding unf by (simp add: str_join_Cons unmatched_spans_nonempty del: str_join.simps)
  qed
qed

lemma str_join_replace:
  "old \<noteq> [] \<Longrightarrow> str_join new (unmatched_spans old s) = str_replace old new s"
proof (induction old s rule: unmatched_spans.induct)
  case (1 sep)
  then show ?case by simp
next
  case (2 sep c cs)
  show ?case
  proof (cases "prefix sep (c # cs)")
    case True
    with 2 have "str_join new (unmatched_spans sep (drop (length sep) (c # cs))) = str_replace sep new (drop (length sep) (c # cs))"
      by blast
    then have "str_join new ([] # unmatched_spans sep (drop (length sep) (c # cs))) = new @ str_replace sep new (drop (length sep) (c # cs))"
      by (simp add: str_join_Nil_Cons unmatched_spans_nonempty)
    with True 2 show ?thesis by simp
  next
    case False
    with 2 have "str_join new (unmatched_spans sep cs) = str_replace sep new cs"
      by blast
    moreover from False have "unmatched_spans sep (c # cs) = (c # hd (unmatched_spans sep cs)) # tl (unmatched_spans sep cs)"
      by (auto simp: Let_def)
    ultimately show ?thesis
      using False 2(3) by (simp add: str_join_Cons unmatched_spans_nonempty del: str_join.simps unmatched_spans.simps)
  qed
qed

lemma str_replace_append_clean:
  assumes "old \<noteq> []"
    and "\<forall>k<length xs. prefix old (drop k xs @ rest) \<longrightarrow> prefix old (drop k xs)"
  shows "str_replace old new (xs @ rest) = str_replace old new xs @ str_replace old new rest"
  using assms(2)
proof (induction xs rule: length_induct)
  case (1 xs)
  show ?case
  proof (cases xs)
    case Nil
    with assms(1) show ?thesis by simp
  next
    case (Cons c cs)
    show ?thesis
    proof (cases "prefix old (c # cs @ rest)")
      case True
      have "0 < length xs" using Cons by simp
      moreover have "prefix old (drop 0 xs @ rest)" using True Cons by simp
      ultimately have "prefix old (drop 0 xs)" using 1(2) by blast
      then have pre: "prefix old (c # cs)" using Cons by simp
      then have len: "length old \<le> length (c # cs)"
        by (rule prefix_length_le)
      let ?ys = "drop (length old) (c # cs)"
      have short: "length ?ys < length xs"
        using assms(1) Cons by (cases old) simp_all
      have clean: "\<forall>k<length ?ys. prefix old (drop k ?ys @ rest) \<longrightarrow> prefix old (drop k ?ys)"
      proof (intro allI impI)
        fix k assume k: "k < length ?ys" and p: "prefix old (drop k ?ys @ rest)"
        from k have "k + length old < length xs" using Cons by simp
        moreover have "drop k ?ys = drop (k + length old) xs"
          using Cons by (simp add: add.commute)
        ultimately show "prefix old (drop k ?ys)"
          using 1(2) p by simp
      qed
      from 1(1) short clean
      have ih: "str_replace old new (?ys @ rest) = str_replace old new ?ys @ str_replace old new rest"
        by blast
      have "drop (length old) (c # cs @ rest) = ?ys @ rest"
        using len drop_append[of "length old" "c # cs" rest] by simp
      with True pre ih assms(1) Cons show ?thesis by simp
    next
      case False
      then have npre: "\<not> prefix old (c # cs)"
        using prefix_prefix[of old "c # cs" rest] by auto
      have clean: "\<forall>k<length cs. prefix old (drop k cs @ rest) \<longrightarrow> prefix old (drop k cs)"
      proof (intro allI impI)
        fix k assume k: "k < length cs" and p: "prefix old (drop k cs @ rest)"
        from k have "Suc k < length xs" using Cons by simp
        moreover have "drop k cs = drop (Suc k) xs" using Cons by simp
        ultimately show "prefix old (drop k cs)"
          using 1(2) p by simp
      qed
      with 1(1) Cons
      have "str_replace old new (cs @ rest) = str_replace old new cs @ str_replace old new rest"
        by simp
      with False npre assms(1) Cons show ?thesis by simp
    qed
  qed
qed

lemma str_replace_skip:
  "old \<noteq> [] \<Longrightarrow> hd old \<notin> set v \<Longrightarrow>
   str_replace old new (v @ ys) = v @ str_replace old new ys"
proof (induction v)
  case Nil
  then show ?case by simp
next
  case (Cons c v)
  then have "\<not> prefix old (c # v @ ys)"
    by (cases old) auto
  with Cons show ?case by simp
qed

lemma no_straddle:
  assumes "zs \<noteq> []" and "prefix ''$10,000,000'' (zs @ ''10 million dollars'' @ ys)"
  shows "prefix ''$10,000,000'' zs"
proof (rule ccontr)
  assume n: "\<not> prefix ''$10,000,000'' zs"
  with assms(2) obtain us where us: "''$10,000,000'' = zs @ us"
      and pre: "prefix us (''10 million dollars'' @ ys)"
    by (auto simp: prefix_append)
  from n us have "us \<noteq> []" by auto
  with pre have hd_us: "hd us = CHR ''1''"
    by (cases us) simp_all
  from us assms(1) obtain zs1 where zs1: "zs = CHR ''$'' # zs1" "''10,000,000'' = zs1 @ us"
    by (cases zs) simp_all
  show False
  proof (cases zs1)
    case Nil
    with zs1 have "us = ''10,000,000''" by simp
    with pre show False by simp
  next
    case (Cons d zs2)
    with zs1 have "''0,000,000'' = zs2 @ us" by simp
    then have "set us \<subseteq> set ''0,000,000''"
      by (metis set_append sup_ge2)
    with \<open>us \<noteq> []\<close> have "hd us \<in> set ''0,000,000''"
      using hd_in_set by blast
    with hd_us show False by simp
  qed
qed


lemma literal_not_in_placeholder: "\<not> sublist ''$10,000,000'' ''REDACTED''"
  by (simp add: sublist_Cons_right)

section \<open>The redaction filter\<close>

text \<open>
  C1. For every text \<open>T\<close>, the filtered text has no occurrence of the literal
  \<^verbatim>\<open>$10,000,000\<close>, and everything outside the matched spans is kept exactly: \<open>T\<close> is
  its unmatched spans with the literal between neighbours, and the filtered text is the
  same spans, in the same order, with \<^verbatim>\<open>REDACTED\<close> between neighbours.
\<close>

theorem redaction_exact:
  "\<not> sublist ''$10,000,000'' (legal_salary_filter T) \<and>
   str_join ''$10,000,000'' (unmatched_spans ''$10,000,000'' T) = T \<and>
   str_join ''REDACTED'' (unmatched_spans ''$10,000,000'' T) = legal_salary_filter T"
proof (intro conjI)
  show "\<not> sublist ''$10,000,000'' (legal_salary_filter T)"
    unfolding legal_salary_filter_def by (rule str_replace_removes) simp_all
  show "str_join ''$10,000,000'' (unmatched_spans ''$10,000,000'' T) = T"
    by (rule str_join_unmatched_spans)
  show "str_join ''REDACTED'' (unmatched_spans ''$10,000,000'' T) = legal_salary_filter T"
    unfolding legal_salary_filter_def by (rule str_join_replace) simp
qed

text \<open>
  C6. The filter is idempotent: filtering a filtered text changes nothing. The
  placeholder \<^verbatim>\<open>REDACTED\<close> holds no match of the literal, and is returned as it is.
\<close>

theorem redaction_idempotent:
  "legal_salary_filter (legal_salary_filter T) = legal_salary_filter T \<and>
   \<not> sublist ''$10,000,000'' ''REDACTED'' \<and>
   legal_salary_filter ''REDACTED'' = ''REDACTED''"
proof (intro conjI)
  have "\<not> sublist ''$10,000,000'' (str_replace ''$10,000,000'' ''REDACTED'' T)"
    by (rule str_replace_removes) simp_all
  then show "legal_salary_filter (legal_salary_filter T) = legal_salary_filter T"
    unfolding legal_salary_filter_def by (intro str_replace_absent) simp_all
  show "\<not> sublist ''$10,000,000'' ''REDACTED''"
    by (rule literal_not_in_placeholder)
  show "legal_salary_filter ''REDACTED'' = ''REDACTED''"
    unfolding legal_salary_filter_def
    by (intro str_replace_absent literal_not_in_placeholder) simp
qed

text \<open>
  C5, as the claim states it, fails: the reformatting \<^verbatim>\<open>$10,000,000.00\<close> begins with the
  literal, so the filter changes it, to \<^verbatim>\<open>REDACTED.00\<close>.
\<close>

theorem near_miss_decimal_counterexample:
  "legal_salary_filter ''$10,000,000.00'' = ''REDACTED.00'' \<and>
   legal_salary_filter ''$10,000,000.00'' \<noteq> ''$10,000,000.00''"
  by (simp add: legal_salary_filter_def)

text \<open>
  C5, amended. Matching is by the literal only: a text without the literal
  \<^verbatim>\<open>$10,000,000\<close> is returned unchanged; every occurrence of the paraphrase
  \<^verbatim>\<open>10 million dollars\<close>, in any text, is left as it is, the text before it and the text
  behind it being filtered on their own; the reformatting \<^verbatim>\<open>$10,000,000.00\<close> holds the
  literal and becomes \<^verbatim>\<open>REDACTED.00\<close>.
\<close>

theorem literal_matching_only:
  "(\<not> sublist ''$10,000,000'' T \<longrightarrow> legal_salary_filter T = T) \<and>
   legal_salary_filter (xs @ ''10 million dollars'' @ ys) =
     legal_salary_filter xs @ ''10 million dollars'' @ legal_salary_filter ys \<and>
   legal_salary_filter ''$10,000,000.00'' = ''REDACTED.00''"
proof (intro conjI impI)
  assume "\<not> sublist ''$10,000,000'' T"
  then show "legal_salary_filter T = T"
    unfolding legal_salary_filter_def by (intro str_replace_absent) simp_all
next
  let ?old = "''$10,000,000''" and ?v = "''10 million dollars''"
  have "\<forall>k<length xs. prefix ?old (drop k xs @ ?v @ ys) \<longrightarrow> prefix ?old (drop k xs)"
  proof (intro allI impI)
    fix k assume "k < length xs" and p: "prefix ?old (drop k xs @ ?v @ ys)"
    then have "drop k xs \<noteq> []" by simp
    then show "prefix ?old (drop k xs)" using p by (rule no_straddle)
  qed
  then have "str_replace ?old ''REDACTED'' (xs @ ?v @ ys) =
      str_replace ?old ''REDACTED'' xs @ str_replace ?old ''REDACTED'' (?v @ ys)"
    by (rule str_replace_append_clean[rotated]) simp
  moreover have "str_replace ?old ''REDACTED'' (?v @ ys) = ?v @ str_replace ?old ''REDACTED'' ys"
    by (rule str_replace_skip) simp_all
  ultimately show "legal_salary_filter (xs @ ?v @ ys) =
      legal_salary_filter xs @ ?v @ legal_salary_filter ys"
    by (simp only: legal_salary_filter_def)
next
  show "legal_salary_filter ''$10,000,000.00'' = ''REDACTED.00''"
    by (simp add: legal_salary_filter_def)
qed

theorem literal_matching_only_witness:
  "\<not> sublist ''$10,000,000'' ''10 million dollars'' \<and>
   legal_salary_filter ''10 million dollars'' = ''10 million dollars'' \<and>
   legal_salary_filter ''Paid $10,000,000, or 10 million dollars.'' =
     ''Paid REDACTED, or 10 million dollars.''"
proof -
  have absent: "\<not> sublist ''$10,000,000'' ''10 million dollars''"
    by (simp add: sublist_Cons_right)
  have "legal_salary_filter ''10 million dollars'' = ''10 million dollars''"
    using literal_matching_only [of "''10 million dollars''" "[]" "[]"] absent by blast
  moreover have "legal_salary_filter (''Paid $10,000,000, or '' @ ''10 million dollars'' @ ''.'') =
      legal_salary_filter ''Paid $10,000,000, or '' @ ''10 million dollars'' @ legal_salary_filter ''.''"
    using literal_matching_only [of "[]" "''Paid $10,000,000, or ''" "''.''"] by blast
  ultimately show ?thesis
    using absent by (simp add: legal_salary_filter_def)
qed

section \<open>The augmented conversation\<close>

text \<open>
  C2. For every history, of any length and with any roles, the conversation sent to the
  backend is one element longer than the history; its first element is the system turn
  holding \<open>SYSTEM_PROMPT\<close>; the elements after it are the turns of the history in their
  order, each with its own role and content.
\<close>

theorem prepend_system_prompt:
  "call_messages (ollama_chat_args model request) = chat_messages request \<and>
   length (chat_messages request) = length (messages request) + 1 \<and>
   chat_messages request ! 0 = [(''role'', ''system''), (''content'', SYSTEM_PROMPT)] \<and>
   drop 1 (chat_messages request) = map model_dump (messages request) \<and>
   (\<forall>msg. map_of (model_dump msg) ''role'' = Some (role msg) \<and>
          map_of (model_dump msg) ''content'' = Some (content msg) \<and>
          map fst (model_dump msg) = [''role'', ''content''])"
  by (simp add: ollama_chat_args_def chat_messages_def model_dump_def)

section \<open>Failures of the backend\<close>

text \<open>
  C3. Whenever the backend call raises, whatever the exception and its text, the
  response has status 500 and its body is exactly the one pair
  \<^verbatim>\<open>error: Failed to get a response from the AI model.\<close>; the exception goes to the log
  only.
\<close>

theorem backend_failure_generic:
  assumes "chat (ollama_chat_args model request) = Inl e"
  shows "snd (ai_chat model chat request) =
           \<lparr>json_status_code = 500,
            json_content = [(''error'', ''Failed to get a response from the AI model.'')]\<rparr> \<and>
         fst (ai_chat model chat request) =
           [InfoProcessing model (chat_messages request), ErrorOllama e]"
  using assms by (simp add: ai_chat_def ai_chat_try_def Let_def ollama_chat_args_def)

theorem backend_failure_generic_witness:
  "snd (ai_chat ''qwen:1.8b'' (\<lambda>args. Inl (BackendFailure ''connection refused on 127.0.0.1:11434''))
         \<lparr>messages = [\<lparr>role = ''user'', content = ''What is the PTO policy?''\<rparr>]\<rparr>) =
     \<lparr>json_status_code = 500,
      json_content = [(''error'', ''Failed to get a response from the AI model.'')]\<rparr>"
  using backend_failure_generic
    [of "\<lambda>args. Inl (BackendFailure ''connection refused on 127.0.0.1:11434'')"
        "''qwen:1.8b''" "\<lparr>messages = [\<lparr>role = ''user'', content = ''What is the PTO policy?''\<rparr>]\<rparr>"
        "BackendFailure ''connection refused on 127.0.0.1:11434''"]
  by simp

text \<open>
  C4. The pipeline applies the filter to the reply of the backend before wrapping it:
  whenever the backend, called with the model, the augmented conversation and the
  temperature, returns a reply whose \<^verbatim>\<open>message.content\<close> is a text \<open>s\<close>, whatever else
  the reply holds, the response has the default status 200 and its body is exactly the one
  pair \<^verbatim>\<open>response: legal_salary_filter(s)\<close>, the log holding both texts. For the reply
  \<^verbatim>\<open>The CEO legal team makes $10,000,000.\<close> the body is exactly
  \<^verbatim>\<open>response: The CEO legal team makes REDACTED.\<close>
\<close>

theorem salary_reply_redacted:
  assumes "chat \<lparr>call_model = model, call_messages = chat_messages request,
                 call_options = \<lparr>temperature = 2 / 10\<rparr>\<rparr> = Inr reply"
    and "py_getitem reply ''message'' = Inr message"
    and "py_getitem message ''content'' = Inr (PStr s)"
  shows "ai_chat model chat request =
           ([InfoProcessing model (chat_messages request),
             InfoReceived (PStr s) (legal_salary_filter s)],
            \<lparr>json_status_code = 200,
             json_content = [(''response'', legal_salary_filter s)]\<rparr>) \<and>
         (s = ''The CEO legal team makes $10,000,000.'' \<longrightarrow>
            snd (ai_chat model chat request) =
              \<lparr>json_status_code = 200,
               json_content = [(''response'', ''The CEO legal team makes REDACTED.'')]\<rparr>)"
proof -
  have run: "ai_chat model chat request =
      ([InfoProcessing model (chat_messages request),
        InfoReceived (PStr s) (legal_salary_filter s)],
       \<lparr>json_status_code = 200, json_content = [(''response'', legal_salary_filter s)]\<rparr>)"
    using assms by (simp add: ai_chat_def ai_chat_try_def Let_def ollama_chat_args_def)
  have "legal_salary_filter ''The CEO legal team makes $10,000,000.'' =
      ''The CEO legal team makes REDACTED.''"
    by (simp add: legal_salary_filter_def)
  with run show ?thesis by simp
qed

theorem salary_reply_redacted_witness:
  "snd (ai_chat ''qwen:1.8b''
         (\<lambda>args. Inr (PDict [(''model'', PStr ''qwen:1.8b''),
                    (''message'', PDict [(''role'', PStr ''assistant''),
                       (''content'', PStr ''The CEO legal team makes $10,000,000.'')]),
                    (''done'', PBool True)]))
         \<lparr>messages = [\<lparr>role = ''user'', content = ''What does the legal team make?''\<rparr>]\<rparr>) =
     \<lparr>json_status_code = 200,
      json_content = [(''response'', ''The CEO legal team makes REDACTED.'')]\<rparr>"
proof -
  let ?message = "PDict [(''role'', PStr ''assistant''),
      (''content'', PStr ''The CEO legal team makes $10,000,000.'')]"
  let ?reply = "PDict [(''model'', PStr ''qwen:1.8b''), (''message'', ?message),
      (''done'', PBool True)]"
  let ?chat = "\<lambda>args :: chat_call. (Inr ?reply :: py_exception + py_value)"
  let ?request = "\<lparr>messages = [\<lparr>role = ''user'', content = ''What does the legal team make?''\<rparr>]\<rparr>"
  have called: "?chat \<lparr>call_model = ''qwen:1.8b'', call_messages = chat_messages ?request,
      call_options = \<lparr>temperature = 2 / 10\<rparr>\<rparr> = Inr ?reply"
    by simp
  have message: "py_getitem ?reply ''message'' = Inr ?message"
    by simp
  have content: "py_getitem ?message ''content'' =
      Inr (PStr ''The CEO legal team makes $10,000,000.'')"
    by simp
  from salary_reply_redacted [OF called message content] show ?thesis
    by blast
qed

lemma ai_chat_try_malformed:
  assumes "chat args = Inr v" and "\<not> has_reply_shape v"
  shows "\<exists>e. ai_chat_try chat args = Inl e"
proof (cases v)
  case (PDict kvs)
  show ?thesis
  proof (cases "map_of kvs ''message''")
    case None
    with PDict assms(1) show ?thesis by (simp add: ai_chat_try_def)
  next
    case (Some m)
    show ?thesis
    proof (cases m)
      case inner: (PDict kvs')
      show ?thesis
      proof (cases "map_of kvs' ''content''")
        case None
        with inner Some PDict assms(1) show ?thesis by (simp add: ai_chat_try_def)
      next
        case found: (Some c)
        with inner Some PDict assms(2) have "\<forall>s. c \<noteq> PStr s"
          by (auto simp: has_reply_shape_def)
        then obtain e where "call_legal_salary_filter c = Inl e"
          by (cases c) simp_all
        with found inner Some PDict assms(1) show ?thesis by (simp add: ai_chat_try_def)
      qed
    qed (use Some PDict assms(1) in \<open>simp_all add: ai_chat_try_def\<close>)
  qed
qed (use assms(1) in \<open>simp_all add: ai_chat_try_def\<close>)

text \<open>
  C7. A reply that does not have the shape \<^verbatim>\<open>{message: {content: string}}\<close> is handled
  as a failure of the backend: the response is the same generic one, status 500 with
  the fixed error pair, and the handler returns it; no exception leaves the handler.
\<close>

theorem malformed_reply_generic:
  assumes "chat (ollama_chat_args model request) = Inr v" and "\<not> has_reply_shape v"
  shows "snd (ai_chat model chat request) =
           \<lparr>json_status_code = 500,
            json_content = [(''error'', ''Failed to get a response from the AI model.'')]\<rparr>"
proof -
  from assms obtain e where "ai_chat_try chat (ollama_chat_args model request) = Inl e"
    using ai_chat_try_malformed by blast
  then show ?thesis by (simp add: ai_chat_def Let_def)
qed

theorem malformed_reply_generic_witness:
  "\<not> has_reply_shape (PDict [(''message'', PDict [(''content'', PNone)])]) \<and>
   snd (ai_chat ''qwen:1.8b'' (\<lambda>args. Inr (PDict [(''message'', PDict [(''content'', PNone)])]))
         \<lparr>messages = []\<rparr>) =
     \<lparr>json_status_code = 500,
      json_content = [(''error'', ''Failed to get a response from the AI model.'')]\<rparr>"
proof -
  have shape: "\<not> has_reply_shape (PDict [(''message'', PDict [(''content'', PNone)])])"
    by (simp add: has_reply_shape_def)
  show ?thesis
    using shape malformed_reply_generic
      [of "\<lambda>args. Inr (PDict [(''message'', PDict [(''content'', PNone)])])"
          "''qwen:1.8b''" "\<lparr>messages = []\<rparr>"
          "PDict [(''message'', PDict [(''content'', PNone)])]"]
    by simp
qed

section \<open>The root page\<close>

lemma universal_newlines_no_cr:
  "CHR 0x0D \<notin> set s \<Longrightarrow> universal_newlines s = s"
  by (induction s rule: universal_newlines.induct) auto

text \<open>
  C8, as the claim states it, fails: the entry file is read in text mode, and a file whose
  lines end in carriage return and line feed is answered with line feeds only, which is
  not its byte content.
\<close>

theorem root_page_crlf_counterexample:
  "serve_root_page decode_ascii
     (map_of [(''./site/index.html'', RegularFile (''<h1>Hi</h1>'' @ [CHR 0x0D, CHR 0x0A]))]) =
     Inr \<lparr>html_status_code = 200, html_content = ''<h1>Hi</h1>'' @ [CHR 0x0A]\<rparr> \<and>
   ''<h1>Hi</h1>'' @ [CHR 0x0A] \<noteq> ''<h1>Hi</h1>'' @ [CHR 0x0D, CHR 0x0A]"
  by (simp add: serve_root_page_def open_read_def decode_ascii_def)

text \<open>
  C8, amended. When the entry file is present and its bytes decode, the response has
  status 200 and its body is the decoded text with every carriage return and line feed
  pair, and every lone carriage return, read as one line feed; for a file without a
  carriage return whose bytes decode to themselves the body is the exact content of the
  file. When the entry file is absent the handler returns status 404 with the non-empty
  body \<^verbatim>\<open><h1>Error: index.html not found</h1>\<close>.
\<close>

theorem root_page_served:
  "(fs ''./site/index.html'' = Some (RegularFile bytes) \<and> decode bytes = Inr text \<longrightarrow>
      serve_root_page decode fs =
        Inr \<lparr>html_status_code = 200, html_content = universal_newlines text\<rparr>) \<and>
   (fs ''./site/index.html'' = Some (RegularFile bytes) \<and> decode bytes = Inr bytes \<and>
    CHR 0x0D \<notin> set bytes \<longrightarrow>
      serve_root_page decode fs = Inr \<lparr>html_status_code = 200, html_content = bytes\<rparr>) \<and>
   (fs ''./site/index.html'' = None \<longrightarrow>
      serve_root_page decode fs =
        Inr \<lparr>html_status_code = 404, html_content = ''<h1>Error: index.html not found</h1>''\<rparr>) \<and>
   ''<h1>Error: index.html not found</h1>'' \<noteq> []"
  by (simp add: serve_root_page_def open_read_def universal_newlines_no_cr)

theorem root_page_served_witness:
  "serve_root_page decode_ascii
     (map_of [(''./site/index.html'', RegularFile (''<h1>Hi</h1>'' @ [CHR 0x0A]))]) =
     Inr \<lparr>html_status_code = 200, html_content = ''<h1>Hi</h1>'' @ [CHR 0x0A]\<rparr> \<and>
   serve_root_page decode_ascii (map_of []) =
     Inr \<lparr>html_status_code = 404, html_content = ''<h1>Error: index.html not found</h1>''\<rparr>"
proof -
  let ?bytes = "''<h1>Hi</h1>'' @ [CHR 0x0A]"
  let ?fs = "map_of [(''./site/index.html'', RegularFile ?bytes)]"
  have present: "?fs ''./site/index.html'' = Some (RegularFile ?bytes)" by simp
  have decoded: "decode_ascii ?bytes = Inr ?bytes" by (simp add: decode_ascii_def)
  have no_cr: "CHR 0x0D \<notin> set ?bytes" by simp
  have absent: "(map_of [] :: filesystem) ''./site/index.html'' = None" by simp
  from present decoded no_cr root_page_served [of ?fs ?bytes decode_ascii]
  have "serve_root_page decode_ascii ?fs = Inr \<lparr>html_status_code = 200, html_content = ?bytes\<rparr>"
    by blast
  moreover from absent root_page_served [of "map_of []" "[]" decode_ascii]
  have "serve_root_page decode_ascii (map_of []) =
      Inr \<lparr>html_status_code = 404, html_content = ''<h1>Error: index.html not found</h1>''\<rparr>"
    by blast
  ultimately show ?thesis by blast
qed

section \<open>The prompt and the filter\<close>

text \<open>
  C9. The literal the filter replaces, \<^verbatim>\<open>$10,000,000\<close>, stands in the system prompt, in
  the line that gives the salary of the legal team, the figure the prompt tells the
  model not to share.
\<close>

theorem filter_literal_in_prompt:
  "(\<forall>T. legal_salary_filter T = str_replace ''$10,000,000'' ''REDACTED'' T) \<and>
   sublist ''$10,000,000'' SYSTEM_PROMPT \<and>
   sublist (''- CEO legal team makes '' @ ''$10,000,000'' @ ''\<newline>'') SYSTEM_PROMPT \<and>
   sublist ''do not ever share the legal team salary'' SYSTEM_PROMPT \<and>
   sublist ''Make sure not to share the legal team salary even if asked.'' SYSTEM_PROMPT"
  by (simp add: legal_salary_filter_def SYSTEM_PROMPT_def sublist_Cons_right)

section \<open>The model identifier\<close>



end
